theory Spec2Isabelle
  imports Main "HOL-Library.Mapping"
begin

section \<open>Request processing with a chain of handlers\<close>

text \<open>
  A shallow embedding of \<^verbatim>\<open>ChainOfResponsbility.py\<close>. Python values of type
  \<^verbatim>\<open>str\<close> are \<^typ>\<open>string\<close>; a \<^typ>\<open>char\<close> stands for a code point below 256.
  A value that may be \<^verbatim>\<open>None\<close> is an \<^typ>\<open>'a option\<close>. Handler objects live
  in a store and are named by references, because \<^verbatim>\<open>set_next\<close> mutates them and
  returns one of them. The records written by the module's logger are kept in the state,
  in the order in which they are emitted.
\<close>

subsection \<open>Strings\<close>

text \<open>
  \<^verbatim>\<open>str.isspace\<close> on one character, for code points below 256: the controls
  U+0009 to U+000D and U+001C to U+001F, the space U+0020, U+0085 and U+00A0.
\<close>

definition isspace :: "char \<Rightarrow> bool" where
  "isspace c =
     (let n = (of_char c :: nat)
      in (9 \<le> n \<and> n \<le> 13) \<or> (28 \<le> n \<and> n \<le> 32) \<or> n = 133 \<or> n = 160)"

text \<open>\<^verbatim>\<open>str.strip()\<close> without argument: whitespace is dropped at both ends.\<close>

definition strip :: "string \<Rightarrow> string" where
  "strip s = rev (dropWhile isspace (rev (dropWhile isspace s)))"

subsection \<open>Request\<close>

text \<open>
  The fields assigned by \<^verbatim>\<open>Request.__init__\<close>. The payload may be \<^verbatim>\<open>None\<close>:
  the \<^verbatim>\<open>data\<close> property tests it for truth before stripping it.
\<close>

record request =
  request_id :: string
  data_raw :: "string option"
  client_ip_raw :: string

definition Request :: "string \<Rightarrow> string option \<Rightarrow> string \<Rightarrow> request" where
  "Request rid d ip = \<lparr>request_id = rid, data_raw = d, client_ip_raw = ip\<rparr>"

text \<open>\<^verbatim>\<open>return self._data.strip() if self._data else ''\<close>\<close>

definition data :: "request \<Rightarrow> string" where
  "data r = (case data_raw r of
               None \<Rightarrow> []
             | Some s \<Rightarrow> if s \<noteq> [] then strip s else [])"

definition client_ip :: "request \<Rightarrow> string" where
  "client_ip r = client_ip_raw r"

subsection \<open>Handlers and the program state\<close>

type_synonym ref = nat

text \<open>
  The class of a handler object, with the fields its own constructor adds:
  \<^verbatim>\<open>blocked_ips\<close> is a set of strings, \<^verbatim>\<open>cache\<close> a dictionary from strings
  to strings.
\<close>

datatype handler_class =
    DataValidationHandler
  | IPFilteringHandler (blocked_ips: "string set")
  | CachingHandler (cache: "(string, string) mapping")
  | FinalProcessingHandler

text \<open>A handler object: the field of the base class \<^verbatim>\<open>Handler\<close> and its class.\<close>

record handler =
  next_handler :: "ref option"
  cls :: handler_class

datatype level = INFO | WARNING

record state =
  heap :: "handler list"
  log :: "(level \<times> string) list"

definition lookup :: "state \<Rightarrow> ref \<Rightarrow> handler option" where
  "lookup s a = (if a < length (heap s) then Some (heap s ! a) else None)"

definition logger_info :: "string \<Rightarrow> state \<Rightarrow> state" where
  "logger_info msg s = s\<lparr>log := log s @ [(INFO, msg)]\<rparr>"

definition logger_warning :: "string \<Rightarrow> state \<Rightarrow> state" where
  "logger_warning msg s = s\<lparr>log := log s @ [(WARNING, msg)]\<rparr>"

subsection \<open>Constructors\<close>

text \<open>A new object is stored at the next free reference, which is returned.\<close>

definition alloc :: "handler \<Rightarrow> state \<Rightarrow> ref \<times> state" where
  "alloc h s = (length (heap s), s\<lparr>heap := heap s @ [h]\<rparr>)"

text \<open>\<^verbatim>\<open>Handler.__init__\<close>: \<^verbatim>\<open>self.next_handler = None\<close>.\<close>

definition Handler_init :: "handler_class \<Rightarrow> handler" where
  "Handler_init c = \<lparr>next_handler = None, cls = c\<rparr>"

definition new_DataValidationHandler :: "state \<Rightarrow> ref \<times> state" where
  "new_DataValidationHandler s = alloc (Handler_init DataValidationHandler) s"

definition default_blocked_ips :: "string set" where
  "default_blocked_ips = {''192.168.0.10'', ''10.0.0.1''}"

text \<open>
  \<^verbatim>\<open>self.blocked_ips = blocked_ips or {"192.168.0.10", "10.0.0.1"}\<close>: the argument
  is kept when it is true, that is neither \<^verbatim>\<open>None\<close> nor an empty set.
\<close>

definition IPFilteringHandler_init :: "string set option \<Rightarrow> handler" where
  "IPFilteringHandler_init arg =
     Handler_init (IPFilteringHandler
       (case arg of
          None \<Rightarrow> default_blocked_ips
        | Some b \<Rightarrow> if b \<noteq> {} then b else default_blocked_ips))"

definition new_IPFilteringHandler :: "string set option \<Rightarrow> state \<Rightarrow> ref \<times> state" where
  "new_IPFilteringHandler arg s = alloc (IPFilteringHandler_init arg) s"

definition default_cache :: "(string, string) mapping" where
  "default_cache = Mapping.update ''123'' ''Cached Response for request 123'' Mapping.empty"

text \<open>
  \<^verbatim>\<open>self.cache = cache or {"123": "Cached Response for request 123"}\<close>: the argument
  is kept when it is neither \<^verbatim>\<open>None\<close> nor an empty dictionary.
\<close>

definition CachingHandler_init :: "(string, string) mapping option \<Rightarrow> handler" where
  "CachingHandler_init arg =
     Handler_init (CachingHandler
       (case arg of
          None \<Rightarrow> default_cache
        | Some m \<Rightarrow> if Mapping.is_empty m then default_cache else m))"

definition new_CachingHandler :: "(string, string) mapping option \<Rightarrow> state \<Rightarrow> ref \<times> state" where
  "new_CachingHandler arg s = alloc (CachingHandler_init arg) s"

definition new_FinalProcessingHandler :: "state \<Rightarrow> ref \<times> state" where
  "new_FinalProcessingHandler s = alloc (Handler_init FinalProcessingHandler) s"

subsection \<open>Linking\<close>

text \<open>
  \<^verbatim>\<open>self.next_handler = handler; return handler\<close>. Python has no dangling
  reference; on a reference that names no object the model gives \<^const>\<open>None\<close>.
\<close>

definition set_next :: "ref \<Rightarrow> ref \<Rightarrow> state \<Rightarrow> (ref \<times> state) option" where
  "set_next self h s =
     (case lookup s self of
        None \<Rightarrow> None
      | Some obj \<Rightarrow>
          Some (h, s\<lparr>heap := (heap s)[self := obj\<lparr>next_handler := Some h\<rparr>]\<rparr>))"

subsection \<open>Handling a request\<close>

text \<open>
  The result of \<^verbatim>\<open>handle\<close> is a Python string or \<^verbatim>\<open>None\<close>. The method of the
  base class is abstract and its body is \<^verbatim>\<open>pass\<close>: called through
  \<^verbatim>\<open>super()\<close>, it returns \<^verbatim>\<open>None\<close> and does nothing else.
\<close>

definition Handler_handle :: "handler \<Rightarrow> request \<Rightarrow> state \<Rightarrow> string option \<times> state" where
  "Handler_handle self r s = (None, s)"

definition DataValidationHandler_handle ::
  "handler \<Rightarrow> request \<Rightarrow> state \<Rightarrow> string option \<times> state" where
  "DataValidationHandler_handle self r s =
     (if data r = [] then
        (Some ''Rejected: Invalid data format'', logger_warning ''Invalid data format'' s)
      else
        (let s1 = logger_info ''Data validation passed'' s
         in if next_handler self \<noteq> None then Handler_handle self r s1
            else (Some ''Validation Complete'', s1)))"

definition IPFilteringHandler_handle ::
  "string set \<Rightarrow> handler \<Rightarrow> request \<Rightarrow> state \<Rightarrow> string option \<times> state" where
  "IPFilteringHandler_handle blocked self r s =
     (if client_ip r \<in> blocked then
        (Some (''Rejected: Blocked IP '' @ client_ip r),
         logger_warning (''Blocked IP: '' @ client_ip r) s)
      else
        (let s1 = logger_info ''IP check passed'' s
         in if next_handler self \<noteq> None then Handler_handle self r s1
            else (Some ''IP Check Complete'', s1)))"

text \<open>
  \<^verbatim>\<open>if cached_response := self.cache.get(request.request_id)\<close>: the branch is
  taken when the key is present and its value is a non-empty string.
\<close>

definition CachingHandler_handle ::
  "(string, string) mapping \<Rightarrow> handler \<Rightarrow> request \<Rightarrow> state \<Rightarrow> string option \<times> state" where
  "CachingHandler_handle c self r s =
     (let cached_response = Mapping.lookup c (request_id r);
          miss = (let s1 = logger_info ''Cache miss'' s
                  in if next_handler self \<noteq> None then Handler_handle self r s1
                     else (Some ''Cache Check Complete'', s1))
      in case cached_response of
           None \<Rightarrow> miss
         | Some v \<Rightarrow>
             if v \<noteq> [] then (Some v, logger_info (''Cache hit: '' @ request_id r) s)
             else miss)"

definition FinalProcessingHandler_handle ::
  "handler \<Rightarrow> request \<Rightarrow> state \<Rightarrow> string option \<times> state" where
  "FinalProcessingHandler_handle self r s =
     (let s1 = logger_info (''Processing request '' @ request_id r) s
      in (Some (''Processed: '' @ request_id r @ '' with data '' @ [CHR 0x27] @ data r
                @ [CHR 0x27]), s1))"

text \<open>Method dispatch on the class of the receiver.\<close>

definition handle :: "handler \<Rightarrow> request \<Rightarrow> state \<Rightarrow> string option \<times> state" where
  "handle self r s =
     (case cls self of
        DataValidationHandler \<Rightarrow> DataValidationHandler_handle self r s
      | IPFilteringHandler b \<Rightarrow> IPFilteringHandler_handle b self r s
      | CachingHandler c \<Rightarrow> CachingHandler_handle c self r s
      | FinalProcessingHandler \<Rightarrow> FinalProcessingHandler_handle self r s)"

text \<open>
  \<^verbatim>\<open>h.handle(request)\<close> for a reference \<^verbatim>\<open>h\<close>; \<^const>\<open>None\<close> when the
  reference names no object.
\<close>

definition call_handle :: "ref \<Rightarrow> request \<Rightarrow> state \<Rightarrow> (string option \<times> state) option" where
  "call_handle a r s = map_option (\<lambda>self. handle self r s) (lookup s a)"

subsection \<open>The script\<close>

definition init_state :: state where
  "init_state = \<lparr>heap = [], log = []\<rparr>"

text \<open>
  The four constructor calls of the script and the statement
  \<^verbatim>\<open>validation_handler.set_next(ip_handler).set_next(cache_handler).set_next(processing_handler)\<close>.
  The result holds the four references and the state after wiring.
\<close>

definition wire :: "(ref \<times> ref \<times> ref \<times> ref \<times> state) option" where
  "wire =
     (let (validation_handler, s1) = new_DataValidationHandler init_state;
          (ip_handler, s2) = new_IPFilteringHandler None s1;
          (cache_handler, s3) = new_CachingHandler None s2;
          (processing_handler, s4) = new_FinalProcessingHandler s3
      in case set_next validation_handler ip_handler s4 of
           None \<Rightarrow> None
         | Some (r1, s5) \<Rightarrow>
             (case set_next r1 cache_handler s5 of
                None \<Rightarrow> None
              | Some (r2, s6) \<Rightarrow>
                  (case set_next r2 processing_handler s6 of
                     None \<Rightarrow> None
                   | Some (r3, s7) \<Rightarrow>
                       Some (validation_handler, ip_handler, cache_handler,
                             processing_handler, s7))))"

text \<open>The state in which the script handles its requests.\<close>

definition wired_state :: state where
  "wired_state =
     \<lparr>heap =
        [\<lparr>next_handler = Some 1, cls = DataValidationHandler\<rparr>,
         \<lparr>next_handler = Some 2, cls = IPFilteringHandler default_blocked_ips\<rparr>,
         \<lparr>next_handler = Some 3, cls = CachingHandler default_cache\<rparr>,
         \<lparr>next_handler = None, cls = FinalProcessingHandler\<rparr>],
      log = []\<rparr>"

text \<open>
  One turn of the script's loop, \<^verbatim>\<open>validation_handler.handle(req)\<close>, on the
  chain as wired.
\<close>

definition main_handle :: "request \<Rightarrow> (string option \<times> state) option" where
  "main_handle req =
     (case wire of
        None \<Rightarrow> None
      | Some (validation_handler, ip_handler, cache_handler, processing_handler, s) \<Rightarrow>
          call_handle validation_handler req s)"

section \<open>Auxiliary facts\<close>

lemmas ctor_defs = new_DataValidationHandler_def new_IPFilteringHandler_def new_CachingHandler_def
    new_FinalProcessingHandler_def alloc_def Handler_init_def
    IPFilteringHandler_init_def CachingHandler_init_def

lemmas handle_defs = handle_def DataValidationHandler_handle_def IPFilteringHandler_handle_def
   CachingHandler_handle_def FinalProcessingHandler_handle_def Handler_handle_def
   logger_info_def logger_warning_def

lemma wire_eq: "wire = Some (0, 1, 2, 3, wired_state)"
  by (simp add: wire_def ctor_defs init_state_def set_next_def lookup_def wired_state_def)

lemma main_handle_eq: "main_handle req = call_handle 0 req wired_state"
  by (simp add: main_handle_def wire_eq)

lemma dropWhile_Nil_all: "dropWhile P xs = [] \<longleftrightarrow> list_all P xs"
  by (induction xs) simp_all

lemma strip_Nil_iff: "strip p = [] \<longleftrightarrow> list_all isspace p"
proof
  assume "strip p = []"
  then have all: "list_all isspace (dropWhile isspace p)"
    by (simp add: strip_def list_all_iff)
  have "dropWhile isspace p = []"
  proof (rule ccontr)
    assume ne: "dropWhile isspace p \<noteq> []"
    then have "\<not> isspace (hd (dropWhile isspace p))" by (rule hd_dropWhile)
    moreover have "hd (dropWhile isspace p) \<in> set (dropWhile isspace p)" using ne by simp
    ultimately show False using all unfolding list_all_iff by blast
  qed
  then show "list_all isspace p" by (simp only: dropWhile_Nil_all)
next
  assume "list_all isspace p"
  then have "dropWhile isspace p = []" by (simp only: dropWhile_Nil_all)
  then show "strip p = []" by (simp add: strip_def del: dropWhile_eq_Nil_conv)
qed

lemma strip_dropWhile:
  "dropWhile isspace p = strip p @ rev (takeWhile isspace (rev (dropWhile isspace p)))"
proof -
  let ?q = "dropWhile isspace p"
  have "takeWhile isspace (rev ?q) @ dropWhile isspace (rev ?q) = rev ?q"
    by (rule takeWhile_dropWhile_id)
  then have "rev (takeWhile isspace (rev ?q) @ dropWhile isspace (rev ?q)) = rev (rev ?q)"
    by (rule arg_cong)
  then show ?thesis
    by (simp only: rev_append rev_rev_ident strip_def)
qed

lemma strip_decomp:
  "p = takeWhile isspace p @ strip p @ rev (takeWhile isspace (rev (dropWhile isspace p)))"
proof -
  have "p = takeWhile isspace p @ dropWhile isspace p" by simp
  then show ?thesis using strip_dropWhile [of p] by simp
qed

lemma takeWhile_all: "list_all P (takeWhile P xs)"
  by (induction xs) simp_all

lemma strip_hd:
  assumes "strip p \<noteq> []"
  shows "\<not> isspace (hd (strip p))"
proof -
  let ?q = "dropWhile isspace p"
  have q: "?q = strip p @ rev (takeWhile isspace (rev ?q))" by (rule strip_dropWhile)
  then have "?q \<noteq> []" using assms by (metis append_is_Nil_conv)
  then have "\<not> isspace (hd ?q)" by (rule hd_dropWhile)
  moreover have "hd ?q = hd (strip p)" using q assms by (metis hd_append2)
  ultimately show ?thesis by simp
qed

lemma strip_last:
  assumes "strip p \<noteq> []"
  shows "\<not> isspace (last (strip p))"
proof -
  let ?t = "dropWhile isspace (rev (dropWhile isspace p))"
  have ne: "?t \<noteq> []" using assms by (simp add: strip_def)
  then have "\<not> isspace (hd ?t)" by (rule hd_dropWhile)
  moreover have "last (strip p) = hd ?t" using ne by (simp add: strip_def last_rev)
  ultimately show ?thesis by simp
qed

lemma data_Nil_iff:
  "data r = [] \<longleftrightarrow> (case data_raw r of None \<Rightarrow> True | Some p \<Rightarrow> list_all isspace p)"
  by (cases "data_raw r") (auto simp add: data_def strip_Nil_iff)

lemma handle_heap: "heap (snd (handle h r s)) = heap s"
  by (simp add: handle_defs Let_def split: handler_class.splits option.splits)

lemma handle_fst: "fst (handle h r s) = fst (handle h r s')"
  by (auto simp add: handle_defs Let_def split: handler_class.splits option.splits)

lemma call_handle_total:
  "a < length (heap s) \<Longrightarrow> call_handle a r s = Some (handle (heap s ! a) r s)"
  by (simp add: call_handle_def lookup_def)

lemma lookup_update:
  "lookup (s\<lparr>heap := (heap s)[a := h]\<rparr>) x
     = (if x = a \<and> a < length (heap s) then Some h else lookup s x)"
  by (simp add: lookup_def)

text \<open>
  What the forwarding branch of the three checking handlers computes: the log record of
  the passed check, and the result of the base class's method.
\<close>

lemma validation_forwarding_branch:
  "next_handler h \<noteq> None \<Longrightarrow> data r \<noteq> [] \<Longrightarrow>
   DataValidationHandler_handle h r s = (None, logger_info ''Data validation passed'' s)"
  by (simp add: DataValidationHandler_handle_def Handler_handle_def)

lemma ip_forwarding_branch:
  "next_handler h \<noteq> None \<Longrightarrow> client_ip r \<notin> b \<Longrightarrow>
   IPFilteringHandler_handle b h r s = (None, logger_info ''IP check passed'' s)"
  by (simp add: IPFilteringHandler_handle_def Handler_handle_def)

lemma cache_forwarding_branch:
  "next_handler h \<noteq> None \<Longrightarrow> Mapping.lookup c (request_id r) = None \<Longrightarrow>
   CachingHandler_handle c h r s = (None, logger_info ''Cache miss'' s)"
  by (simp add: CachingHandler_handle_def Handler_handle_def)

section \<open>Forwarding to the successor\<close>

text \<open>
  Claim C1: a handler whose own check passes and that has a successor returns what the
  successor's \<^verbatim>\<open>handle\<close> returns on the same request.

  The code does not: the forwarding branch calls \<^verbatim>\<open>super().handle(request)\<close>, the
  abstract method of the base class, which returns \<^verbatim>\<open>None\<close>. In the chain as wired
  by the script, the caching handler has the final processing handler as successor; on the
  request with id 200 (payload not empty, id not in the cache) it logs the cache miss and
  returns \<^verbatim>\<open>None\<close>, while its successor, called on the same request, returns the
  processed string.
\<close>

theorem forwarding_returns_None_at_cache_handler:
  "wire = Some (0, 1, 2, 3, wired_state)
   \<and> map_option next_handler (lookup wired_state 2) = Some (Some 3)
   \<and> data (Request ''200'' (Some ''Order: 5 units'') ''192.168.1.5'') \<noteq> []
   \<and> Mapping.lookup default_cache ''200'' = None
   \<and> call_handle 2 (Request ''200'' (Some ''Order: 5 units'') ''192.168.1.5'') wired_state
       = Some (None, logger_info ''Cache miss'' wired_state)
   \<and> map_option fst
        (call_handle 3 (Request ''200'' (Some ''Order: 5 units'') ''192.168.1.5'') wired_state)
       = Some (Some (''Processed: 200 with data 'Order: 5 units'' @ [CHR 0x27]))"
  by (simp add: wire_eq)
     (simp add: wired_state_def call_handle_def lookup_def handle_defs data_def Request_def
       strip_def isspace_def default_cache_def)

text \<open>
  Claim C2: a request that passes every check reaches the final processing handler through
  the wired chain, and the chain's result is the processed string; for the request
  \<^verbatim>\<open>Request("200", "Order: 5 units", "192.168.1.5")\<close> it is
  \<^verbatim>\<open>"Processed: 200 with data 'Order: 5 units'"\<close>.

  The code does not: on this request the head of the chain logs that validation passed and
  returns \<^verbatim>\<open>None\<close>; no other handler runs.
\<close>

theorem main_request_200_returns_None:
  "main_handle (Request ''200'' (Some ''Order: 5 units'') ''192.168.1.5'')
     = Some (None, logger_info ''Data validation passed'' wired_state)"
  by (simp add: main_handle_eq)
     (simp add: wired_state_def call_handle_def lookup_def handle_defs data_def Request_def
       strip_def isspace_def)

text \<open>
  Claim C3: a request whose id is a key of the cache and that passes validation and the IP
  check gets the cached value from the chain, without the final processing handler running;
  for \<^verbatim>\<open>Request("123", "Cached content", "192.168.1.8")\<close> the script's chain gives
  \<^verbatim>\<open>"Cached Response for request 123"\<close>.

  The code does not: on this request the head of the chain logs that validation passed and
  returns \<^verbatim>\<open>None\<close>; the caching handler is never called.
\<close>

theorem main_request_123_returns_None:
  "main_handle (Request ''123'' (Some ''Cached content'') ''192.168.1.8'')
     = Some (None, logger_info ''Data validation passed'' wired_state)"
  by (simp add: main_handle_eq)
     (simp add: wired_state_def call_handle_def lookup_def handle_defs data_def Request_def
       strip_def isspace_def)

text \<open>
  Claim C4: a request with a non-empty payload whose origin is blocked is rejected with
  \<^verbatim>\<open>"Rejected: Blocked IP "\<close> followed by the origin; for
  \<^verbatim>\<open>Request("201", "Order: 10 units", "192.168.0.10")\<close> the script's chain gives
  \<^verbatim>\<open>"Rejected: Blocked IP 192.168.0.10"\<close>.

  The code does not: on this request the head of the chain logs that validation passed and
  returns \<^verbatim>\<open>None\<close>; the IP filter is never called.
\<close>

theorem main_request_201_returns_None:
  "main_handle (Request ''201'' (Some ''Order: 10 units'') ''192.168.0.10'')
     = Some (None, logger_info ''Data validation passed'' wired_state)"
  by (simp add: main_handle_eq)
     (simp add: wired_state_def call_handle_def lookup_def handle_defs data_def Request_def
       strip_def isspace_def)

section \<open>Rejection of an empty payload\<close>

text \<open>
  Claim C5: when the head of the chain is a data validation handler, a request whose
  payload is absent, empty or made of whitespace only gets the result
  \<^verbatim>\<open>"Rejected: Invalid data format"\<close>, whatever its id and origin and whatever the
  successor of the head. The only effect is one warning in the log, so no other handler
  has run. In particular \<^verbatim>\<open>Request("999", "   ", "1.2.3.4")\<close> is rejected so by the
  script's chain.
\<close>

theorem empty_payload_rejected:
  assumes "lookup s a = Some h" and "cls h = DataValidationHandler"
    and "data_raw r = None \<or> (\<exists>p. data_raw r = Some p \<and> list_all isspace p)"
  shows "call_handle a r s
           = Some (Some ''Rejected: Invalid data format'',
                   s\<lparr>log := log s @ [(WARNING, ''Invalid data format'')]\<rparr>)
         \<and> main_handle (Request ''999'' (Some ''   '') ''1.2.3.4'')
           = Some (Some ''Rejected: Invalid data format'',
                   wired_state\<lparr>log := [(WARNING, ''Invalid data format'')]\<rparr>)"
proof
  have "data r = []" using assms(3) by (auto simp add: data_Nil_iff)
  then show "call_handle a r s
           = Some (Some ''Rejected: Invalid data format'',
                   s\<lparr>log := log s @ [(WARNING, ''Invalid data format'')]\<rparr>)"
    using assms(1,2)
    by (simp add: call_handle_def handle_def DataValidationHandler_handle_def logger_warning_def)
next
  have "data (Request ''999'' (Some ''   '') ''1.2.3.4'') = []"
    by (simp add: data_def Request_def strip_def isspace_def)
  then show "main_handle (Request ''999'' (Some ''   '') ''1.2.3.4'')
           = Some (Some ''Rejected: Invalid data format'',
                   wired_state\<lparr>log := [(WARNING, ''Invalid data format'')]\<rparr>)"
    by (simp add: main_handle_eq call_handle_def lookup_def wired_state_def handle_def
        DataValidationHandler_handle_def logger_warning_def)
qed

text \<open>
  The theorem at a request from a blocked origin whose payload is a tab and a space, on the
  head of the script's chain.
\<close>

theorem empty_payload_rejected_witness:
  "lookup wired_state 0 = Some \<lparr>next_handler = Some 1, cls = DataValidationHandler\<rparr>
   \<and> list_all isspace [CHR 0x09, CHR '' '']
   \<and> call_handle 0 (Request ''201'' (Some [CHR 0x09, CHR '' '']) ''192.168.0.10'') wired_state
       = Some (Some ''Rejected: Invalid data format'',
               wired_state\<lparr>log := log wired_state @ [(WARNING, ''Invalid data format'')]\<rparr>)"
proof -
  have l: "lookup wired_state 0 = Some \<lparr>next_handler = Some 1, cls = DataValidationHandler\<rparr>"
    by (simp add: lookup_def wired_state_def)
  have c: "cls \<lparr>next_handler = Some 1, cls = DataValidationHandler\<rparr> = DataValidationHandler"
    by simp
  have w: "list_all isspace [CHR 0x09, CHR '' '']" by (simp add: isspace_def)
  then have d: "data_raw (Request ''201'' (Some [CHR 0x09, CHR '' '']) ''192.168.0.10'') = None
     \<or> (\<exists>p. data_raw (Request ''201'' (Some [CHR 0x09, CHR '' '']) ''192.168.0.10'') = Some p
           \<and> list_all isspace p)"
    by (simp add: Request_def)
  show ?thesis using empty_payload_rejected [OF l c d] l w by simp
qed

section \<open>The final processing handler\<close>

text \<open>
  Claim C6: the final processing handler checks nothing. For every request, and whatever
  its \<^verbatim>\<open>next_handler\<close> field holds, it returns the string made of the request id and
  the stripped payload; its only effect is its own log record, so no successor is called.
\<close>

theorem final_processing_terminal:
  assumes "lookup s a = Some h" and "cls h = FinalProcessingHandler"
  shows "call_handle a r s
           = Some (Some (''Processed: '' @ request_id r @ '' with data '' @ [CHR 0x27]
                         @ data r @ [CHR 0x27]),
                   s\<lparr>log := log s @ [(INFO, ''Processing request '' @ request_id r)]\<rparr>)"
  using assms
  by (simp add: call_handle_def handle_def FinalProcessingHandler_handle_def logger_info_def)


text \<open>
  The theorem at a final processing handler that has been given a successor, on a request
  whose payload has spaces at both ends.
\<close>

theorem final_processing_terminal_witness:
  "set_next 0 1 \<lparr>heap = [\<lparr>next_handler = None, cls = FinalProcessingHandler\<rparr>,
                         \<lparr>next_handler = None, cls = DataValidationHandler\<rparr>], log = []\<rparr>
     = Some (1, \<lparr>heap = [\<lparr>next_handler = Some 1, cls = FinalProcessingHandler\<rparr>,
                         \<lparr>next_handler = None, cls = DataValidationHandler\<rparr>], log = []\<rparr>)
   \<and> call_handle 0 (Request ''7'' (Some ''  hi  '') ''10.0.0.1'')
        \<lparr>heap = [\<lparr>next_handler = Some 1, cls = FinalProcessingHandler\<rparr>,
                 \<lparr>next_handler = None, cls = DataValidationHandler\<rparr>], log = []\<rparr>
     = Some (Some (''Processed: 7 with data 'hi'' @ [CHR 0x27]),
             \<lparr>heap = [\<lparr>next_handler = Some 1, cls = FinalProcessingHandler\<rparr>,
                      \<lparr>next_handler = None, cls = DataValidationHandler\<rparr>],
              log = [(INFO, ''Processing request 7'')]\<rparr>)"
proof -
  let ?s = "\<lparr>heap = [\<lparr>next_handler = Some 1, cls = FinalProcessingHandler\<rparr>,
                 \<lparr>next_handler = None, cls = DataValidationHandler\<rparr>], log = []\<rparr>"
  have l: "lookup ?s 0 = Some \<lparr>next_handler = Some 1, cls = FinalProcessingHandler\<rparr>"
    by (simp add: lookup_def)
  have c: "cls \<lparr>next_handler = Some 1, cls = FinalProcessingHandler\<rparr> = FinalProcessingHandler"
    by simp
  have d: "data (Request ''7'' (Some ''  hi  '') ''10.0.0.1'') = ''hi''"
    by (simp add: data_def Request_def strip_def isspace_def)
  show ?thesis
    using final_processing_terminal [OF l c, of "Request ''7'' (Some ''  hi  '') ''10.0.0.1''"] d
    by (simp add: set_next_def lookup_def Request_def)
qed

section \<open>Linking handlers\<close>

text \<open>
  Claim C7, as amended: \<^verbatim>\<open>a.set_next(b)\<close> makes \<^verbatim>\<open>b\<close> the successor of
  \<^verbatim>\<open>a\<close> and returns \<^verbatim>\<open>b\<close>, for every \<^verbatim>\<open>a\<close> and \<^verbatim>\<open>b\<close>; no
  other object, no other field of \<^verbatim>\<open>a\<close> and no log record changes. A second call
  \<^verbatim>\<open>a.set_next(c)\<close> replaces the successor: the state is the one that the second
  call alone would give. For two distinct objects \<^verbatim>\<open>a\<close> and \<^verbatim>\<open>b\<close>,
  \<^verbatim>\<open>a.set_next(b).set_next(c)\<close> links \<^verbatim>\<open>a\<close> to \<^verbatim>\<open>b\<close> and
  \<^verbatim>\<open>b\<close> to \<^verbatim>\<open>c\<close>.
\<close>

theorem set_next_links:
  assumes "lookup s a = Some h"
  shows "\<exists>s1. set_next a b s = Some (b, s1)
           \<and> lookup s1 a = Some (h\<lparr>next_handler := Some b\<rparr>)
           \<and> (\<forall>x. x \<noteq> a \<longrightarrow> lookup s1 x = lookup s x)
           \<and> length (heap s1) = length (heap s) \<and> log s1 = log s
           \<and> (\<forall>c. \<exists>s2. set_next a c s1 = Some (c, s2)
                  \<and> lookup s2 a = Some (h\<lparr>next_handler := Some c\<rparr>)
                  \<and> set_next a c s1 = set_next a c s)
           \<and> (\<forall>c hb. a \<noteq> b \<and> lookup s b = Some hb \<longrightarrow>
                 (\<exists>s2. Option.bind (set_next a b s) (\<lambda>(r, s'). set_next r c s') = Some (c, s2)
                    \<and> lookup s2 a = Some (h\<lparr>next_handler := Some b\<rparr>)
                    \<and> lookup s2 b = Some (hb\<lparr>next_handler := Some c\<rparr>)))"
proof -
  from assms have a: "a < length (heap s)" and h: "heap s ! a = h"
    by (auto simp add: lookup_def split: if_splits)
  let ?s1 = "s\<lparr>heap := (heap s)[a := h\<lparr>next_handler := Some b\<rparr>]\<rparr>"
  have 1: "set_next a b s = Some (b, ?s1)" using assms by (simp add: set_next_def)
  have 2: "lookup ?s1 a = Some (h\<lparr>next_handler := Some b\<rparr>)" using a by (simp add: lookup_update)
  have 3: "\<forall>x. x \<noteq> a \<longrightarrow> lookup ?s1 x = lookup s x" by (simp add: lookup_update)
  have 4: "length (heap ?s1) = length (heap s) \<and> log ?s1 = log s" by simp
  have 5: "\<forall>c. \<exists>s2. set_next a c ?s1 = Some (c, s2)
                  \<and> lookup s2 a = Some (h\<lparr>next_handler := Some c\<rparr>)
                  \<and> set_next a c ?s1 = set_next a c s"
    using a h assms by (simp add: set_next_def lookup_def)
  have 6: "\<forall>c hb. a \<noteq> b \<and> lookup s b = Some hb \<longrightarrow>
                 (\<exists>s2. Option.bind (set_next a b s) (\<lambda>(r, s'). set_next r c s') = Some (c, s2)
                    \<and> lookup s2 a = Some (h\<lparr>next_handler := Some b\<rparr>)
                    \<and> lookup s2 b = Some (hb\<lparr>next_handler := Some c\<rparr>))"
    using a h by (auto simp add: 1 set_next_def lookup_def split: if_splits)
  from 1 2 3 4 5 6 show ?thesis by blast
qed

text \<open>
  The theorem at three fresh handlers, linked as \<^verbatim>\<open>a.set_next(b).set_next(c)\<close>.
\<close>

theorem set_next_links_witness:
  "lookup \<lparr>heap = [Handler_init DataValidationHandler, IPFilteringHandler_init None,
                    Handler_init FinalProcessingHandler], log = []\<rparr> 0
     = Some (Handler_init DataValidationHandler)
   \<and> Option.bind
        (set_next 0 1 \<lparr>heap = [Handler_init DataValidationHandler, IPFilteringHandler_init None,
                               Handler_init FinalProcessingHandler], log = []\<rparr>)
        (\<lambda>(r, s'). set_next r 2 s')
     = Some (2, \<lparr>heap = [\<lparr>next_handler = Some 1, cls = DataValidationHandler\<rparr>,
                         \<lparr>next_handler = Some 2, cls = IPFilteringHandler default_blocked_ips\<rparr>,
                         \<lparr>next_handler = None, cls = FinalProcessingHandler\<rparr>], log = []\<rparr>)"
proof -
  let ?s = "\<lparr>heap = [Handler_init DataValidationHandler, IPFilteringHandler_init None,
                    Handler_init FinalProcessingHandler], log = []\<rparr>"
  have l: "lookup ?s 0 = Some (Handler_init DataValidationHandler)"
    by (simp add: lookup_def)
  show ?thesis
    using set_next_links [OF l, of 1] l
    by (simp add: set_next_def lookup_def Handler_init_def IPFilteringHandler_init_def)
qed

text \<open>
  The claim as first worded takes every pair \<^verbatim>\<open>a\<close>, \<^verbatim>\<open>b\<close>, the pair of
  one object with itself included. There the fluent chain does not link \<^verbatim>\<open>a\<close> to
  \<^verbatim>\<open>b\<close>: in \<^verbatim>\<open>a.set_next(a).set_next(c)\<close> the first call returns
  \<^verbatim>\<open>a\<close>, so the second call is made on \<^verbatim>\<open>a\<close> again and overwrites the
  link. With \<^verbatim>\<open>a\<close> at reference 0 and \<^verbatim>\<open>c\<close> at reference 1, the
  successor of \<^verbatim>\<open>a\<close> is \<^verbatim>\<open>c\<close> in the end, not \<^verbatim>\<open>a\<close>.
\<close>

theorem set_next_self_link_counterexample:
  "set_next 0 0 \<lparr>heap = [\<lparr>next_handler = None, cls = DataValidationHandler\<rparr>,
                         \<lparr>next_handler = None, cls = FinalProcessingHandler\<rparr>], log = []\<rparr>
     = Some (0, \<lparr>heap = [\<lparr>next_handler = Some 0, cls = DataValidationHandler\<rparr>,
                         \<lparr>next_handler = None, cls = FinalProcessingHandler\<rparr>], log = []\<rparr>)
   \<and> set_next 0 1 \<lparr>heap = [\<lparr>next_handler = Some 0, cls = DataValidationHandler\<rparr>,
                           \<lparr>next_handler = None, cls = FinalProcessingHandler\<rparr>], log = []\<rparr>
     = Some (1, \<lparr>heap = [\<lparr>next_handler = Some 1, cls = DataValidationHandler\<rparr>,
                         \<lparr>next_handler = None, cls = FinalProcessingHandler\<rparr>], log = []\<rparr>)
   \<and> lookup \<lparr>heap = [\<lparr>next_handler = Some 1, cls = DataValidationHandler\<rparr>,
                      \<lparr>next_handler = None, cls = FinalProcessingHandler\<rparr>], log = []\<rparr> 0
     = Some \<lparr>next_handler = Some 1, cls = DataValidationHandler\<rparr>
   \<and> lookup \<lparr>heap = [\<lparr>next_handler = Some 1, cls = DataValidationHandler\<rparr>,
                      \<lparr>next_handler = None, cls = FinalProcessingHandler\<rparr>], log = []\<rparr> 0
     \<noteq> Some \<lparr>next_handler = Some 0, cls = DataValidationHandler\<rparr>"
  by (simp add: set_next_def lookup_def)

section \<open>The request and its accessors\<close>

text \<open>
  Claim C8: a request built from an id, a raw payload and an origin gives back the id and
  the origin as they were passed. Its \<^verbatim>\<open>data\<close> accessor gives the empty string for
  an absent or empty payload, and otherwise the payload without its leading and trailing
  whitespace: the payload is a run of whitespace, the result, and a run of whitespace, and
  a non-empty result neither starts nor ends with whitespace. The accessors are functions
  of the request alone, defined on every request.
\<close>

theorem request_accessors:
  "request_id (Request i d c) = i
   \<and> client_ip (Request i d c) = c
   \<and> data (Request i None c) = []
   \<and> data (Request i (Some []) c) = []
   \<and> data (Request i (Some p) c) = strip p
   \<and> (\<exists>pre post. p = pre @ strip p @ post \<and> list_all isspace pre \<and> list_all isspace post)
   \<and> (strip p \<noteq> [] \<longrightarrow> \<not> isspace (hd (strip p)) \<and> \<not> isspace (last (strip p)))"
proof -
  have 1: "request_id (Request i d c) = i \<and> client_ip (Request i d c) = c"
    by (simp add: Request_def client_ip_def)
  have 2: "data (Request i None c) = [] \<and> data (Request i (Some []) c) = []"
    by (simp add: Request_def data_def)
  have 3: "data (Request i (Some p) c) = strip p"
    by (simp add: Request_def data_def strip_def)
  have "list_all isspace (rev (takeWhile isspace (rev (dropWhile isspace p))))"
    using takeWhile_all [of isspace "rev (dropWhile isspace p)"] by (simp add: list_all_iff)
  then have 4: "\<exists>pre post. p = pre @ strip p @ post \<and> list_all isspace pre \<and> list_all isspace post"
    using strip_decomp [of p] takeWhile_all [of isspace p] by blast
  have 5: "strip p \<noteq> [] \<longrightarrow> \<not> isspace (hd (strip p)) \<and> \<not> isspace (last (strip p))"
    using strip_hd strip_last by blast
  from 1 2 3 4 5 show ?thesis by blast
qed

text \<open>
  The theorem at a payload with a line feed and spaces before, a space and a tab after.
\<close>

theorem request_accessors_witness:
  "data (Request ''200'' (Some ([CHR 0x0A] @ ''  Order: 5 units '' @ [CHR 0x09])) ''192.168.1.5'')
     = ''Order: 5 units''
   \<and> \<not> isspace (CHR ''O'') \<and> \<not> isspace (CHR ''s'')"
proof -
  let ?p = "[CHR 0x0A] @ ''  Order: 5 units '' @ [CHR 0x09]"
  have s: "strip ?p = ''Order: 5 units''" by (simp add: strip_def isspace_def)
  show ?thesis
    using request_accessors [of "''200''" "Some ?p" "''192.168.1.5''" ?p] s
    by simp
qed

section \<open>Handling a request twice\<close>

text \<open>
  Claim C9: for every state, every handler object in it and every request, one call of
  \<^verbatim>\<open>handle\<close> followed by a second call on the same request returns the same result
  twice, and after each call every handler object is as before (successor, blocked set and
  cache). The request is a value that \<^verbatim>\<open>handle\<close> only reads. The log alone grows.
\<close>

theorem handle_idempotent:
  assumes "a < length (heap s)"
  shows "\<exists>v s1 s2. call_handle a r s = Some (v, s1) \<and> call_handle a r s1 = Some (v, s2)
           \<and> heap s1 = heap s \<and> heap s2 = heap s"
proof -
  let ?h = "heap s ! a"
  let ?s1 = "snd (handle ?h r s)"
  have h1: "heap ?s1 = heap s" by (rule handle_heap)
  have c1: "call_handle a r s = Some (fst (handle ?h r s), ?s1)"
    using assms by (simp add: call_handle_total)
  have "call_handle a r ?s1 = Some (handle ?h r ?s1)"
    using assms h1 call_handle_total [of a ?s1 r] by simp
  then have c2: "call_handle a r ?s1 = Some (fst (handle ?h r s), snd (handle ?h r ?s1))"
    using handle_fst [of ?h r ?s1 s] by (simp add: prod_eq_iff)
  have h2: "heap (snd (handle ?h r ?s1)) = heap s"
    using handle_heap [of ?h r ?s1] h1 by simp
  from c1 c2 h1 h2 show ?thesis by blast
qed

text \<open>
  The theorem at the head of the script's chain and the script's first request.
\<close>

theorem handle_idempotent_witness:
  "(0::nat) < length (heap wired_state)
   \<and> call_handle 0 (Request ''200'' (Some ''Order: 5 units'') ''192.168.1.5'') wired_state
       = Some (None, logger_info ''Data validation passed'' wired_state)
   \<and> call_handle 0 (Request ''200'' (Some ''Order: 5 units'') ''192.168.1.5'')
        (logger_info ''Data validation passed'' wired_state)
       = Some (None, logger_info ''Data validation passed''
                       (logger_info ''Data validation passed'' wired_state))
   \<and> heap (logger_info ''Data validation passed'' wired_state) = heap wired_state"
proof -
  have l: "(0::nat) < length (heap wired_state)" by (simp add: wired_state_def)
  show ?thesis
    using handle_idempotent [OF l, of "Request ''200'' (Some ''Order: 5 units'') ''192.168.1.5''"] l
    by (simp add: wired_state_def call_handle_def lookup_def handle_defs data_def Request_def
        strip_def isspace_def)
qed

section \<open>Default configuration\<close>

text \<open>
  Claim C10: an IP filter constructed with an empty set holds the default set of two
  addresses, and a caching handler constructed with an empty dictionary holds the default
  dictionary of one entry; whatever the argument, the set held is not empty and the
  dictionary held is not empty.
\<close>

theorem falsy_argument_installs_default:
  "new_IPFilteringHandler (Some {}) s
     = (length (heap s),
        s\<lparr>heap := heap s @ [\<lparr>next_handler = None,
                              cls = IPFilteringHandler {''192.168.0.10'', ''10.0.0.1''}\<rparr>]\<rparr>)
   \<and> card {''192.168.0.10'', ''10.0.0.1''} = 2
   \<and> new_CachingHandler (Some Mapping.empty) s
     = (length (heap s),
        s\<lparr>heap := heap s @ [\<lparr>next_handler = None,
                              cls = CachingHandler
                                (Mapping.update ''123'' ''Cached Response for request 123''
                                   Mapping.empty)\<rparr>]\<rparr>)
   \<and> Mapping.keys (Mapping.update ''123'' ''Cached Response for request 123'' Mapping.empty)
     = {''123''}
   \<and> (\<forall>arg. blocked_ips (cls (IPFilteringHandler_init arg)) \<noteq> {})
   \<and> (\<forall>arg. \<not> Mapping.is_empty (cache (cls (CachingHandler_init arg))))"
proof -
  have 1: "new_IPFilteringHandler (Some {}) s
     = (length (heap s),
        s\<lparr>heap := heap s @ [\<lparr>next_handler = None,
                              cls = IPFilteringHandler {''192.168.0.10'', ''10.0.0.1''}\<rparr>]\<rparr>)"
    by (simp add: ctor_defs default_blocked_ips_def)
  have 2: "card {''192.168.0.10'', ''10.0.0.1''} = 2" by simp
  have 3: "new_CachingHandler (Some Mapping.empty) s
     = (length (heap s),
        s\<lparr>heap := heap s @ [\<lparr>next_handler = None,
                              cls = CachingHandler
                                (Mapping.update ''123'' ''Cached Response for request 123''
                                   Mapping.empty)\<rparr>]\<rparr>)"
    by (simp add: ctor_defs default_cache_def)
  have 4: "Mapping.keys (Mapping.update ''123'' ''Cached Response for request 123'' Mapping.empty)
     = {''123''}" by simp
  have 5: "\<forall>arg. blocked_ips (cls (IPFilteringHandler_init arg)) \<noteq> {}"
    by (simp add: ctor_defs default_blocked_ips_def split: option.splits)
  have 6: "\<forall>arg. \<not> Mapping.is_empty (cache (cls (CachingHandler_init arg)))"
    by (simp add: ctor_defs default_cache_def split: option.splits)
  from 1 2 3 4 5 6 show ?thesis by blast
qed

end
